theory Spec2Isabelle
  imports
    Complex_Main
    "HOL-Library.Char_ord"
    "HOL-Library.List_Lexorder"
    "HOL-Library.Product_Lexorder"
begin

section \<open>Values: cells, floats, exceptions\<close>

text \<open>
  A cell of a table is a Python string or a Python integer (the two kinds of categorical
  token). Missing values are outside the model.
\<close>

datatype cell = StrV string | IntV int

text \<open>
  Python and numpy floats. The three IEEE special values are kept, because
  \<^verbatim>\<open>np.log2(0.0)\<close> is \<^verbatim>\<open>-inf\<close> and \<^verbatim>\<open>0.0 * -inf\<close> is \<^verbatim>\<open>nan\<close>. A finite float is
  modelled by the real number it stands for, and the operations below are exact on finite
  floats: they do not round, and they neither overflow nor underflow. They give the
  program's values where the doubles are exact (a quotient \<open>n / n\<close> or \<open>1 / 2\<close>, a product
  with 0 or 1, the logarithm of 1 or of \<open>1 / 2\<close>) and in whatever does not depend on the
  digits: which exception is raised, where \<^verbatim>\<open>nan\<close> appears, how values are compared. The
  last digit of a sum of several rounded terms is not the program's, so nothing below is
  stated about it; the selection among computed entropies is stated for an arbitrary
  entropy function (\<open>max_info_gain_feature_with\<close>), of which the program's is one.
\<close>

datatype pyfloat = Fin real | PInf | NInf | NaN

datatype error = KeyError string | ValueError string | IndexError | ZeroDivisionError

text \<open>
  \<^verbatim>\<open>a / b\<close> on two Python ints: true division, raising on a zero divisor. (The
  \<^verbatim>\<open>OverflowError\<close> of a quotient too large for a float needs \<open>\<bar>a\<bar>\<close> far above \<open>\<bar>b\<bar>\<close>; the
  module divides a count by a total that is not below it.)
\<close>

definition truediv :: "int \<Rightarrow> int \<Rightarrow> error + pyfloat" where
  "truediv a b = (if b = 0 then Inl ZeroDivisionError else Inr (Fin (real_of_int a / real_of_int b)))"

text \<open>\<^verbatim>\<open>np.log2\<close>: no exception, \<^verbatim>\<open>-inf\<close> at zero and \<^verbatim>\<open>nan\<close> below it.\<close>

fun np_log2 :: "pyfloat \<Rightarrow> pyfloat" where
  "np_log2 (Fin x) = (if 0 < x then Fin (log 2 x) else if x = 0 then NInf else NaN)"
| "np_log2 PInf = PInf"
| "np_log2 NInf = NaN"
| "np_log2 NaN = NaN"

fun fmul :: "pyfloat \<Rightarrow> pyfloat \<Rightarrow> pyfloat" where
  "fmul (Fin a) (Fin b) = Fin (a * b)"
| "fmul NaN _ = NaN"
| "fmul _ NaN = NaN"
| "fmul (Fin a) PInf = (if a = 0 then NaN else if 0 < a then PInf else NInf)"
| "fmul (Fin a) NInf = (if a = 0 then NaN else if 0 < a then NInf else PInf)"
| "fmul PInf (Fin b) = (if b = 0 then NaN else if 0 < b then PInf else NInf)"
| "fmul NInf (Fin b) = (if b = 0 then NaN else if 0 < b then NInf else PInf)"
| "fmul PInf PInf = PInf"
| "fmul PInf NInf = NInf"
| "fmul NInf PInf = NInf"
| "fmul NInf NInf = PInf"

fun fadd :: "pyfloat \<Rightarrow> pyfloat \<Rightarrow> pyfloat" where
  "fadd (Fin a) (Fin b) = Fin (a + b)"
| "fadd NaN _ = NaN"
| "fadd _ NaN = NaN"
| "fadd PInf NInf = NaN"
| "fadd NInf PInf = NaN"
| "fadd PInf _ = PInf"
| "fadd _ PInf = PInf"
| "fadd NInf _ = NInf"
| "fadd _ NInf = NInf"

fun fneg :: "pyfloat \<Rightarrow> pyfloat" where
  "fneg (Fin a) = Fin (- a)"
| "fneg PInf = NInf"
| "fneg NInf = PInf"
| "fneg NaN = NaN"

text \<open>\<^verbatim>\<open>a < b\<close> on floats: false whenever an operand is \<^verbatim>\<open>nan\<close>.\<close>

fun flt :: "pyfloat \<Rightarrow> pyfloat \<Rightarrow> bool" where
  "flt (Fin a) (Fin b) = (a < b)"
| "flt NaN _ = False"
| "flt _ NaN = False"
| "flt PInf _ = False"
| "flt NInf NInf = False"
| "flt NInf _ = True"
| "flt (Fin a) PInf = True"
| "flt (Fin a) NInf = False"

text \<open>The builtin \<^verbatim>\<open>sum\<close>: starts from the integer 0 and adds from the left.\<close>

definition py_sum :: "pyfloat list \<Rightarrow> pyfloat" where
  "py_sum xs = foldl fadd (Fin 0) xs"

text \<open>A list comprehension whose body may raise: the first exception ends it.\<close>

fun map_err :: "('a \<Rightarrow> error + 'b) \<Rightarrow> 'a list \<Rightarrow> error + 'b list" where
  "map_err f [] = Inr []"
| "map_err f (x # xs) =
     (case f x of
        Inl err \<Rightarrow> Inl err
      | Inr v \<Rightarrow> (case map_err f xs of Inl err \<Rightarrow> Inl err | Inr vs \<Rightarrow> Inr (v # vs)))"

text \<open>\<^verbatim>\<open>str(n)\<close> of a cell: a string is itself, an integer is written in decimal.\<close>

function str_nat :: "nat \<Rightarrow> string" where
  "str_nat n = (if n < 10 then [char_of (48 + n)] else str_nat (n div 10) @ [char_of (48 + n mod 10)])"
  by pat_completeness auto
termination
  by (relation "measure (\<lambda>n. n)") auto

fun str :: "cell \<Rightarrow> string" where
  "str (StrV s) = s"
| "str (IntV i) = (if i < 0 then CHR ''-'' # str_nat (nat (- i)) else str_nat (nat i))"

section \<open>Tables\<close>

text \<open>
  A \<^verbatim>\<open>DataFrame\<close>: the length of its row index and its columns in order, each a
  name with its cells. pandas allows two columns of one name. A \<^verbatim>\<open>Series\<close> is a
  named column; the label series passed to the entry point shares the table's index, so
  it is attached by position.
\<close>

record dataframe =
  nrows :: nat
  cols :: "(string \<times> cell list) list"

record series =
  name :: string
  vals :: "cell list"

definition columns :: "dataframe \<Rightarrow> string list" where
  "columns df = map fst (cols df)"

text \<open>
  Selecting one column by name, as \<^verbatim>\<open>df[feature]\<close> and \<^verbatim>\<open>df.groupby(feature)\<close> need
  it: an unknown name is a \<^verbatim>\<open>KeyError\<close>, and a name shared by several columns does not
  give a one-dimensional key (\<^verbatim>\<open>ValueError\<close>).
\<close>

definition get_column :: "dataframe \<Rightarrow> string \<Rightarrow> error + cell list" where
  "get_column df f =
     (case filter (\<lambda>c. fst c = f) (cols df) of
        [] \<Rightarrow> Inl (KeyError f)
      | [c] \<Rightarrow> Inr (snd c)
      | _ \<Rightarrow> Inl (ValueError ''not 1-dimensional''))"

text \<open>\<^verbatim>\<open>df.loc[mask]\<close>: the rows where the boolean mask holds, in every column.\<close>

definition select :: "bool list \<Rightarrow> 'a list \<Rightarrow> 'a list" where
  "select bs xs = map snd (filter fst (zip bs xs))"

definition loc :: "dataframe \<Rightarrow> bool list \<Rightarrow> dataframe" where
  "loc df bs =
     \<lparr>nrows = length (filter (\<lambda>b. b) bs),
      cols = map (\<lambda>c. (fst c, select bs (snd c))) (cols df)\<rparr>"

text \<open>
  The order of group keys: integers before strings, each kind in its own order. (Sums of
  real numbers do not depend on it.)
\<close>

fun cell_key :: "cell \<Rightarrow> nat \<times> int \<times> string" where
  "cell_key (IntV i) = (0, i, [])"
| "cell_key (StrV s) = (1, 0, s)"

text \<open>
  \<^verbatim>\<open>df.groupby(feature)\<close>, iterated: one pair (key, sub-table) for each distinct value of
  the column, in sorted key order; the sub-table holds the rows with that value.
\<close>

definition groupby :: "dataframe \<Rightarrow> string \<Rightarrow> error + (cell \<times> dataframe) list" where
  "groupby df f =
     (case get_column df f of
        Inl err \<Rightarrow> Inl err
      | Inr c \<Rightarrow> Inr (map (\<lambda>k. (k, loc df (map (\<lambda>x. x = k) c))) (sort_key cell_key (remdups c))))"

section \<open>Entropy\<close>

text \<open>
  The functions of the module, in its order. A name cannot begin with an underscore here:
  \<open>eqn\<close>, \<open>e\<close> and \<open>feature_value_entropy\<close> are the module's \<^verbatim>\<open>_eqn\<close>, \<^verbatim>\<open>_e\<close> and
  \<^verbatim>\<open>_feature_value_entropy\<close>.

  \<^verbatim>\<open>return val * np.log2(val)\<close>
\<close>

definition eqn :: "pyfloat \<Rightarrow> pyfloat" where
  "eqn val = fmul val (np_log2 val)"

text \<open>
  \<^verbatim>\<open>total = sum(values_per_label_value)\<close>

  \<^verbatim>\<open>return - sum([_eqn(i / total) for i in values_per_label_value])\<close>

  The counts are Python integers, so each quotient is a true division that raises on a
  zero total.
\<close>

definition feature_value_entropy :: "int list \<Rightarrow> error + pyfloat" where
  "feature_value_entropy values_per_label_value =
     (let total = sum_list values_per_label_value in
      case map_err (\<lambda>i. case truediv i total of Inl err \<Rightarrow> Inl err | Inr q \<Rightarrow> Inr (eqn q))
             values_per_label_value of
        Inl err \<Rightarrow> Inl err
      | Inr ts \<Rightarrow> Inr (fneg (py_sum ts)))"

text \<open>
  \<^verbatim>\<open>return _feature_value_entropy([len(i) for _, i in feat_val_df.groupby(label)])\<close>
\<close>

definition e :: "dataframe \<Rightarrow> string \<Rightarrow> error + pyfloat" where
  "e feat_val_df label =
     (case groupby feat_val_df label of
        Inl err \<Rightarrow> Inl err
      | Inr gs \<Rightarrow> feature_value_entropy (map (\<lambda>g. int (nrows (snd g))) gs))"

text \<open>
  \<^verbatim>\<open>return len(df.loc[df[feature] == feature_value]) / len(df)\<close>

  The comparison is between cells: an integer cell is never equal to a string.
\<close>

definition p :: "dataframe \<Rightarrow> string \<Rightarrow> cell \<Rightarrow> error + pyfloat" where
  "p df feature feature_value =
     (case get_column df feature of
        Inl err \<Rightarrow> Inl err
      | Inr c \<Rightarrow> truediv (int (nrows (loc df (map (\<lambda>x. x = feature_value) c)))) (int (nrows df)))"

text \<open>
  \<^verbatim>\<open>return sum([p(df, feature, str(n)) * _e(feat_val_df, label) for n, feat_val_df in df.groupby(feature)])\<close>
\<close>

definition feature_entropy :: "dataframe \<Rightarrow> string \<Rightarrow> string \<Rightarrow> error + pyfloat" where
  "feature_entropy df feature label =
     (case groupby df feature of
        Inl err \<Rightarrow> Inl err
      | Inr gs \<Rightarrow>
          (case map_err (\<lambda>g. case p df feature (StrV (str (fst g))) of
                               Inl err \<Rightarrow> Inl err
                             | Inr pr \<Rightarrow> (case e (snd g) label of
                                           Inl err \<Rightarrow> Inl err
                                         | Inr en \<Rightarrow> Inr (fmul pr en))) gs of
             Inl err \<Rightarrow> Inl err
           | Inr ts \<Rightarrow> Inr (py_sum ts)))"

section \<open>Dictionaries, sorting and minimum\<close>

text \<open>
  A Python \<^verbatim>\<open>dict\<close> keeps its keys in insertion order: an association list with one
  entry for each key. Storing under a key that is present replaces the value where it is.
\<close>

fun dict_set :: "('k \<times> 'v) list \<Rightarrow> 'k \<Rightarrow> 'v \<Rightarrow> ('k \<times> 'v) list" where
  "dict_set [] k v = [(k, v)]"
| "dict_set (kv # d) k v = (if fst kv = k then (k, v) # d else kv # dict_set d k v)"

definition dict_of_items :: "('k \<times> 'v) list \<Rightarrow> ('k \<times> 'v) list" where
  "dict_of_items items = foldl (\<lambda>d kv. dict_set d (fst kv) (snd kv)) [] items"

definition dict_del :: "(string \<times> 'v) list \<Rightarrow> string \<Rightarrow> error + (string \<times> 'v) list" where
  "dict_del d k =
     (if k \<in> fst ` set d then Inr (filter (\<lambda>kv. fst kv \<noteq> k) d) else Inl (KeyError k))"

text \<open>
  \<^verbatim>\<open>sorted(items, key=lambda x: x[1])\<close>: a stable sort that compares keys with
  \<^verbatim>\<open><\<close> only, here as a stable insertion sort on the second components. Where no key
  is \<^verbatim>\<open>nan\<close> the comparison is a linear order and every stable sort gives this result;
  with a \<^verbatim>\<open>nan\<close> key Python's merge sort may order the items otherwise, and nothing is
  stated for that case.
\<close>

fun py_insort :: "'a \<times> pyfloat \<Rightarrow> ('a \<times> pyfloat) list \<Rightarrow> ('a \<times> pyfloat) list" where
  "py_insort x [] = [x]"
| "py_insort x (y # ys) = (if flt (snd y) (snd x) then y # py_insort x ys else x # y # ys)"

definition py_sorted :: "('a \<times> pyfloat) list \<Rightarrow> ('a \<times> pyfloat) list" where
  "py_sorted items = foldr py_insort items []"

text \<open>
  \<^verbatim>\<open>min(d, key=d.get)\<close>: goes through the keys in the dictionary's order, compares
  the values stored with them, and keeps the first of the smallest; raises on an empty
  dictionary.
\<close>

fun min_from :: "'a \<times> pyfloat \<Rightarrow> ('a \<times> pyfloat) list \<Rightarrow> 'a \<times> pyfloat" where
  "min_from best [] = best"
| "min_from best (x # xs) = min_from (if flt (snd x) (snd best) then x else best) xs"

definition py_min :: "('a \<times> pyfloat) list \<Rightarrow> error + 'a" where
  "py_min d =
     (case d of
        [] \<Rightarrow> Inl (ValueError ''min() arg is an empty sequence'')
      | x # xs \<Rightarrow> Inr (fst (min_from x xs)))"

section \<open>The store of table objects\<close>

text \<open>
  Tables are mutable objects: a variable holds a reference, here the position of the
  object in the store. \<^verbatim>\<open>df.copy()\<close> makes a new object with the same contents,
  \<^verbatim>\<open>df.insert\<close> changes the object it is called on, \<^verbatim>\<open>df.drop\<close> leaves its object
  alone and returns a new one.
\<close>

type_synonym heap = "dataframe list"

definition df_copy :: "heap \<Rightarrow> nat \<Rightarrow> nat \<times> heap" where
  "df_copy h r = (length h, h @ [h ! r])"

definition df_insert :: "heap \<Rightarrow> nat \<Rightarrow> nat \<Rightarrow> string \<Rightarrow> cell list \<Rightarrow> error + heap" where
  "df_insert h r pos column value =
     (if length (cols (h ! r)) < pos then Inl IndexError
      else if column \<in> set (columns (h ! r))
        then Inl (ValueError (''cannot insert '' @ column @ '', already exists''))
      else Inr (h[r := (h ! r)\<lparr>cols := take pos (cols (h ! r)) @ [(column, value)] @
                                      drop pos (cols (h ! r))\<rparr>]))"

definition df_drop :: "heap \<Rightarrow> nat \<Rightarrow> string \<Rightarrow> error + nat \<times> heap" where
  "df_drop h r column =
     (if column \<notin> set (columns (h ! r)) then Inl (KeyError column)
      else Inr (length h, h @ [(h ! r)\<lparr>cols := filter (\<lambda>c. fst c \<noteq> column) (cols (h ! r))\<rparr>]))"

section \<open>The feature selector\<close>

text \<open>The dictionary comprehension \<^verbatim>\<open>{f: feature_entropy(df, f, label) for f in df}\<close>.\<close>

definition entropy_dict :: "dataframe \<Rightarrow> string \<Rightarrow> error + (string \<times> pyfloat) list" where
  "entropy_dict df label =
     (case map_err (\<lambda>f. case feature_entropy df f label of
                           Inl err \<Rightarrow> Inl err
                         | Inr v \<Rightarrow> Inr (f, v)) (columns df) of
        Inl err \<Rightarrow> Inl err
      | Inr items \<Rightarrow> Inr (dict_of_items items))"

text \<open>
  The entry point takes the store, the reference \<open>df\<close> the caller passes and the label
  series, and returns its result (a feature name or the exception raised) with the store
  it leaves.
\<close>

text \<open>
  \<^verbatim>\<open>label = y.name\<close>

  \<^verbatim>\<open>df = df.copy()\<close>

  \<^verbatim>\<open>df.insert(0, label, y)\<close>

  \<^verbatim>\<open>df = df.drop('index', axis=1)\<close>

  \<^verbatim>\<open>entropy_values = dict(sorted({f: feature_entropy(df, f, label) for f in df}.items(), key=lambda x: x[1]))\<close>

  \<^verbatim>\<open>del entropy_values[label]\<close>

  \<^verbatim>\<open>return min(entropy_values, key=entropy_values.get)\<close>
\<close>

definition max_info_gain_feature :: "heap \<Rightarrow> nat \<Rightarrow> series \<Rightarrow> (error + string) \<times> heap" where
  "max_info_gain_feature h df y =
     (let label = name y;
          (df1, h1) = df_copy h df
      in case df_insert h1 df1 0 label (vals y) of
           Inl err \<Rightarrow> (Inl err, h1)
         | Inr h2 \<Rightarrow>
             (case df_drop h2 df1 ''index'' of
                Inl err \<Rightarrow> (Inl err, h2)
              | Inr (df2, h3) \<Rightarrow>
                  (case entropy_dict (h3 ! df2) label of
                     Inl err \<Rightarrow> (Inl err, h3)
                   | Inr d \<Rightarrow>
                       (case dict_del (dict_of_items (py_sorted d)) label of
                          Inl err \<Rightarrow> (Inl err, h3)
                        | Inr entropy_values \<Rightarrow> (py_min entropy_values, h3)))))"

text \<open>
  The same two definitions with the function that computes the entropy of a column as a
  parameter \<open>fe\<close>. The entry point is the instance \<open>fe = feature_entropy\<close>
  (\<open>max_info_gain_feature_with_feature_entropy\<close>); the program's own
  \<^verbatim>\<open>feature_entropy\<close>, which returns rounded doubles, is another.
\<close>

definition entropy_dict_with ::
  "(dataframe \<Rightarrow> string \<Rightarrow> string \<Rightarrow> error + pyfloat) \<Rightarrow> dataframe \<Rightarrow> string \<Rightarrow>
   error + (string \<times> pyfloat) list" where
  "entropy_dict_with fe df label =
     (case map_err (\<lambda>f. case fe df f label of
                           Inl err \<Rightarrow> Inl err
                         | Inr v \<Rightarrow> Inr (f, v)) (columns df) of
        Inl err \<Rightarrow> Inl err
      | Inr items \<Rightarrow> Inr (dict_of_items items))"

definition max_info_gain_feature_with ::
  "(dataframe \<Rightarrow> string \<Rightarrow> string \<Rightarrow> error + pyfloat) \<Rightarrow> heap \<Rightarrow> nat \<Rightarrow> series \<Rightarrow>
   (error + string) \<times> heap" where
  "max_info_gain_feature_with fe h df y =
     (let label = name y;
          (df1, h1) = df_copy h df
      in case df_insert h1 df1 0 label (vals y) of
           Inl err \<Rightarrow> (Inl err, h1)
         | Inr h2 \<Rightarrow>
             (case df_drop h2 df1 ''index'' of
                Inl err \<Rightarrow> (Inl err, h2)
              | Inr (df2, h3) \<Rightarrow>
                  (case entropy_dict_with fe (h3 ! df2) label of
                     Inl err \<Rightarrow> (Inl err, h3)
                   | Inr d \<Rightarrow>
                       (case dict_del (dict_of_items (py_sorted d)) label of
                          Inl err \<Rightarrow> (Inl err, h3)
                        | Inr entropy_values \<Rightarrow> (py_min entropy_values, h3)))))"

section \<open>Notions used in the statements\<close>

text \<open>
  The table the entropies are computed on: the caller's table with the label attached in
  front and every column named \<^verbatim>\<open>index\<close> dropped.
\<close>

definition working_copy :: "dataframe \<Rightarrow> series \<Rightarrow> dataframe" where
  "working_copy t y = t\<lparr>cols := filter (\<lambda>c. fst c \<noteq> ''index'') ((name y, vals y) # cols t)\<rparr>"

text \<open>Example tables and label series.\<close>

definition weather :: dataframe where
  "weather =
     \<lparr>nrows = 4,
      cols = [(''index'', [IntV 0, IntV 1, IntV 2, IntV 3]),
              (''Wind'', [StrV ''weak'', StrV ''strong'', StrV ''weak'', StrV ''strong'']),
              (''Sky'', [StrV ''sunny'', StrV ''sunny'', StrV ''rainy'', StrV ''rainy''])]\<rparr>"

definition play :: series where
  "play = \<lparr>name = ''Play'', vals = [StrV ''yes'', StrV ''yes'', StrV ''no'', StrV ''no'']\<rparr>"

definition no_index :: dataframe where
  "no_index = \<lparr>nrows = 1, cols = [(''Sky'', [StrV ''sunny''])]\<rparr>"

definition sky :: series where
  "sky = \<lparr>name = ''Sky'', vals = [StrV ''yes'', StrV ''yes'', StrV ''no'', StrV ''no'']\<rparr>"

definition play1 :: series where
  "play1 = \<lparr>name = ''Play'', vals = [StrV ''yes'']\<rparr>"

text \<open>A table with no rows, a table with no feature column, and a copy of \<open>weather\<close>
  whose index column has other cells and stands last.\<close>

definition zero_rows :: dataframe where
  "zero_rows = \<lparr>nrows = 0, cols = [(''index'', []), (''Wind'', []), (''Sky'', [])]\<rparr>"

definition no_labels :: series where
  "no_labels = \<lparr>name = ''Play'', vals = []\<rparr>"

definition only_index :: dataframe where
  "only_index = \<lparr>nrows = 4, cols = [(''index'', [IntV 0, IntV 1, IntV 2, IntV 3])]\<rparr>"

definition weather_moved :: dataframe where
  "weather_moved =
     \<lparr>nrows = 4,
      cols = [(''Wind'', [StrV ''weak'', StrV ''strong'', StrV ''weak'', StrV ''strong'']),
              (''Sky'', [StrV ''sunny'', StrV ''sunny'', StrV ''rainy'', StrV ''rainy'']),
              (''index'', [StrV ''a'', StrV ''b'', StrV ''c'', StrV ''d''])]\<rparr>"

text \<open>A table whose feature is coded by integers.\<close>

definition coded :: dataframe where
  "coded =
     \<lparr>nrows = 4,
      cols = [(''F'', [IntV 1, IntV 1, IntV 2, IntV 2]),
              (''Play'', [StrV ''yes'', StrV ''no'', StrV ''yes'', StrV ''no''])]\<rparr>"

text \<open>
  The conditional entropy as the specification words it: for each distinct value of the
  feature, the probability \<^verbatim>\<open>p\<close> of that value times the entropy of the rows holding it.
  It differs from \<open>feature_entropy\<close> in the argument given to \<open>p\<close>: the value itself, where
  the code gives \<^verbatim>\<open>str(n)\<close>.
\<close>

definition feature_entropy_spec :: "dataframe \<Rightarrow> string \<Rightarrow> string \<Rightarrow> error + pyfloat" where
  "feature_entropy_spec df feature label =
     (case groupby df feature of
        Inl err \<Rightarrow> Inl err
      | Inr gs \<Rightarrow>
          (case map_err (\<lambda>g. case p df feature (fst g) of
                               Inl err \<Rightarrow> Inl err
                             | Inr pr \<Rightarrow> (case e (snd g) label of
                                           Inl err \<Rightarrow> Inl err
                                         | Inr en \<Rightarrow> Inr (fmul pr en))) gs of
             Inl err \<Rightarrow> Inl err
           | Inr ts \<Rightarrow> Inr (py_sum ts)))"

fun is_str :: "cell \<Rightarrow> bool" where
  "is_str (StrV s) = True"
| "is_str (IntV i) = False"



section \<open>Properties of the operations\<close>

lemma set_py_insort: "set (py_insort x ys) = insert x (set ys)"
  by (induction ys) auto

lemma set_py_sorted: "set (py_sorted xs) = set xs"
  unfolding py_sorted_def by (induction xs) (auto simp: set_py_insort)

lemma keys_dict_set: "fst ` set (dict_set d k v) = insert k (fst ` set d)"
  by (induction d) auto

lemma keys_foldl_dict_set:
  "fst ` set (foldl (\<lambda>d kv. dict_set d (fst kv) (snd kv)) acc xs) = fst ` set acc \<union> fst ` set xs"
  by (induction xs arbitrary: acc) (auto simp: keys_dict_set)

lemma keys_dict_of_items: "fst ` set (dict_of_items xs) = fst ` set xs"
  unfolding dict_of_items_def by (simp add: keys_foldl_dict_set)

lemma map_err_Inr_iff: "map_err f xs = Inr ys \<longleftrightarrow> list_all2 (\<lambda>x y. f x = Inr y) xs ys"
proof (induction xs arbitrary: ys)
  case Nil
  show ?case by auto
next
  case (Cons x xs)
  show ?case
    by (cases ys) (auto simp: Cons.IH[symmetric] split: sum.splits)
qed

lemma entropy_dict_keys:
  assumes "entropy_dict df label = Inr d"
  shows "fst ` set d = set (columns df)"
proof -
  from assms obtain items where
    it: "map_err (\<lambda>f. case feature_entropy df f label of Inl err \<Rightarrow> Inl err | Inr v \<Rightarrow> Inr (f, v)) (columns df) = Inr items"
    and d: "d = dict_of_items items"
    by (auto simp: entropy_dict_def split: sum.splits)
  from it have "list_all2 (\<lambda>f kv. fst kv = f) (columns df) items"
    unfolding map_err_Inr_iff by (rule list_all2_mono) (auto split: sum.splits)
  then have "map fst items = columns df"
    by (induction rule: list_all2_induct) auto
  then have "fst ` set items = set (columns df)"
    by (metis set_map)
  with d show ?thesis by (simp add: keys_dict_of_items)
qed

lemma store_prefix_kept: "take (length h) (snd (max_info_gain_feature h df y)) = h"
  by (auto simp: max_info_gain_feature_def df_copy_def df_insert_def df_drop_def Let_def
      split: sum.splits prod.splits if_splits)

lemma mig_result:
  "fst (max_info_gain_feature h df y) =
     (if name y \<in> set (columns (h ! df))
        then Inl (ValueError (''cannot insert '' @ name y @ '', already exists''))
      else if ''index'' \<notin> set (name y # columns (h ! df)) then Inl (KeyError ''index'')
      else case entropy_dict (working_copy (h ! df) y) (name y) of
             Inl err \<Rightarrow> Inl err
           | Inr d \<Rightarrow>
               (case dict_del (dict_of_items (py_sorted d)) (name y) of
                  Inl err \<Rightarrow> Inl err
                | Inr entropy_values \<Rightarrow> py_min entropy_values))"
  by (simp add: max_info_gain_feature_def df_copy_def df_insert_def df_drop_def Let_def columns_def
      working_copy_def nth_append split: sum.splits prod.splits)

lemma no_index_fails:
  assumes "''index'' \<notin> set (columns (h ! df))"
  shows "\<exists>err. fst (max_info_gain_feature h df y) = Inl err"
proof (cases "name y = ''index''")
  case False
  with assms show ?thesis by (simp add: mig_result)
next
  case True
  have "dict_del (dict_of_items (py_sorted d)) ''index'' = Inl (KeyError ''index'')"
    if "entropy_dict (working_copy (h ! df) y) ''index'' = Inr d" for d
  proof -
    have "fst ` set d = set (columns (working_copy (h ! df) y))"
      using that by (rule entropy_dict_keys)
    then have "''index'' \<notin> fst ` set d" by (auto simp: columns_def working_copy_def)
    then show ?thesis by (simp add: dict_del_def keys_dict_of_items set_py_sorted)
  qed
  then show ?thesis using True assms
    by (auto simp: mig_result split: sum.splits)
qed


lemma nrows_loc_eq: "nrows (loc t (map P c)) = length (filter P c)"
  unfolding loc_def by (induction c) auto

lemma groupby_Inr:
  "get_column t f = Inr c \<Longrightarrow>
   groupby t f = Inr (map (\<lambda>k. (k, loc t (map (\<lambda>x. x = k) c))) (sort_key cell_key (remdups c)))"
  by (simp add: groupby_def)

lemma singleton_remdups: "set l = {v} \<Longrightarrow> remdups l = [v]"
proof (induction l)
  case Nil
  then show ?case by simp
next
  case (Cons x xs)
  then have x: "x = v" and sub: "set xs \<subseteq> {v}" by auto
  show ?case
  proof (cases "xs = []")
    case True
    with x show ?thesis by simp
  next
    case False
    with sub have "set xs = {v}" by (cases xs) auto
    with Cons.IH x show ?thesis by simp
  qed
qed

lemma single_count_entropy: "0 < n \<Longrightarrow> feature_value_entropy [n] = Inr (Fin 0)"
  by (simp add: feature_value_entropy_def truediv_def eqn_def py_sum_def)

lemma length_filter_eq_count: "length (filter (\<lambda>x. x = v) c) = count_list c v"
  by (induction c) auto







lemma filter_key_distinct:
  "distinct (map fst xs) \<Longrightarrow> (f, c) \<in> set xs \<Longrightarrow> filter (\<lambda>c. fst c = f) xs = [(f, c)]"
proof (induction xs)
  case Nil
  then show ?case by simp
next
  case (Cons x xs)
  show ?case
  proof (cases "x = (f, c)")
    case True
    with Cons.prems have "f \<notin> fst ` set xs" by auto
    then have "filter (\<lambda>c. fst c = f) xs = []" by (force simp: filter_empty_conv)
    with True show ?thesis by simp
  next
    case False
    with Cons.prems have in_xs: "(f, c) \<in> set xs" by auto
    then have "f \<in> fst ` set xs" by force
    with Cons.prems have "fst x \<noteq> f" by auto
    with Cons.IH Cons.prems in_xs show ?thesis by simp
  qed
qed

lemma get_column_distinct:
  "distinct (columns t) \<Longrightarrow> (f, c) \<in> set (cols t) \<Longrightarrow> get_column t f = Inr c"
  by (simp add: get_column_def columns_def filter_key_distinct)


lemmas eval_defs = max_info_gain_feature_def df_copy_def df_insert_def df_drop_def columns_def
  entropy_dict_def feature_entropy_def groupby_def get_column_def loc_def select_def p_def e_def
  feature_value_entropy_def truediv_def eqn_def py_sum_def dict_of_items_def py_sorted_def
  dict_del_def py_min_def Let_def

lemma log2_half: "log 2 (1 / 2) = - 1"
  by (simp add: log_divide)

lemma min_from_mem: "min_from best xs \<in> set (best # xs)"
  by (induction xs arbitrary: best) auto

lemma py_min_key: "py_min d = Inr f \<Longrightarrow> f \<in> fst ` set d"
proof (cases d)
  case Nil
  assume "py_min d = Inr f"
  with Nil show ?thesis by (simp add: py_min_def)
next
  case (Cons x xs)
  assume "py_min d = Inr f"
  with Cons have "f = fst (min_from x xs)" by (simp add: py_min_def)
  with min_from_mem[of x xs] Cons show ?thesis by force
qed

lemma result_is_column:
  assumes "fst (max_info_gain_feature h df y) = Inr f"
  shows "f \<in> set (columns (working_copy (h ! df) y))"
proof -
  from assms obtain d ev where
    d: "entropy_dict (working_copy (h ! df) y) (name y) = Inr d" and
    ev: "dict_del (dict_of_items (py_sorted d)) (name y) = Inr ev" and
    m: "py_min ev = Inr f"
    by (auto simp: mig_result split: if_splits sum.splits)
  from m have "f \<in> fst ` set ev" by (rule py_min_key)
  also from ev have "fst ` set ev \<subseteq> fst ` set (dict_of_items (py_sorted d))"
    by (auto simp: dict_del_def split: if_splits)
  also have "\<dots> = fst ` set d" by (simp add: keys_dict_of_items set_py_sorted)
  also have "\<dots> = set (columns (working_copy (h ! df) y))"
    using d by (rule entropy_dict_keys)
  finally show ?thesis .
qed

lemma map_err_cong: "(\<And>x. x \<in> set xs \<Longrightarrow> f x = g x) \<Longrightarrow> map_err f xs = map_err g xs"
  by (induction xs) (auto split: sum.splits)

lemma str_of_string_cell: "is_str k \<Longrightarrow> StrV (str k) = k"
  by (cases k) auto

lemma feature_entropy_string_column:
  assumes "get_column t f = Inr c" and "list_all is_str c"
  shows "feature_entropy t f label = feature_entropy_spec t f label"
proof -
  let ?gs = "map (\<lambda>k. (k, loc t (map (\<lambda>x. x = k) c))) (sort_key cell_key (remdups c))"
  have "StrV (str (fst g)) = fst g" if "g \<in> set ?gs" for g
    using that assms(2) by (auto simp: list_all_iff str_of_string_cell)
  then have "map_err (\<lambda>g. case p t f (StrV (str (fst g))) of
                       Inl err \<Rightarrow> Inl err
                     | Inr pr \<Rightarrow> (case e (snd g) label of
                                   Inl err \<Rightarrow> Inl err
                                 | Inr en \<Rightarrow> Inr (fmul pr en))) ?gs
           = map_err (\<lambda>g. case p t f (fst g) of
                       Inl err \<Rightarrow> Inl err
                     | Inr pr \<Rightarrow> (case e (snd g) label of
                                   Inl err \<Rightarrow> Inl err
                                 | Inr en \<Rightarrow> Inr (fmul pr en))) ?gs"
    by (intro map_err_cong) simp
  then show ?thesis
    by (simp add: feature_entropy_def feature_entropy_spec_def groupby_Inr[OF assms(1)])
qed

lemma entropy_dict_with_feature_entropy:
  "entropy_dict_with feature_entropy df label = entropy_dict df label"
  by (simp add: entropy_dict_with_def entropy_dict_def)

lemma max_info_gain_feature_with_feature_entropy:
  "max_info_gain_feature_with feature_entropy h df y = max_info_gain_feature h df y"
  unfolding max_info_gain_feature_with_def max_info_gain_feature_def
    entropy_dict_with_feature_entropy by (rule refl)











text \<open>
  The numerators of the probabilities \<^verbatim>\<open>p\<close> of the distinct values of a column add up
  to the number of its cells. This is exact; what the quotients and their sum round to is
  outside the model.
\<close>

lemma value_counts_sum:
  assumes "get_column t f = Inr c"
  shows "(\<Sum>v\<leftarrow>remdups c. nrows (loc t (map (\<lambda>x. x = v) c))) = length c"
proof -
  have "(\<Sum>v\<leftarrow>remdups c. nrows (loc t (map (\<lambda>x. x = v) c))) = (\<Sum>v\<leftarrow>remdups c. count_list c v)"
    by (simp add: nrows_loc_eq length_filter_eq_count)
  also have "\<dots> = sum (count_list c) (set c)"
    by (simp add: sum_list_distinct_conv_sum_set)
  also have "\<dots> = length c" by (simp add: sum_count_set)
  finally show ?thesis .
qed

section \<open>The claims\<close>

text \<open>
  Claim C9. The entry point leaves the caller's table as it was: the label is inserted
  into a copy, and every object the store held before the call is unchanged after it.
\<close>

theorem caller_table_unchanged:
  "df < length h \<Longrightarrow>
   snd (max_info_gain_feature h df y) ! df = h ! df \<and>
   take (length h) (snd (max_info_gain_feature h df y)) = h"
proof -
  assume a: "df < length h"
  have k: "take (length h) (snd (max_info_gain_feature h df y)) = h" by (rule store_prefix_kept)
  have "snd (max_info_gain_feature h df y) ! df
        = take (length h) (snd (max_info_gain_feature h df y)) ! df"
    using a by simp
  with k show ?thesis by simp
qed

theorem caller_table_unchanged_witness:
  "(0::nat) < length [weather] \<and>
   snd (max_info_gain_feature [weather] 0 play) ! 0 = [weather] ! 0 \<and>
   take (length [weather]) (snd (max_info_gain_feature [weather] 0 play)) = [weather]"
  using caller_table_unchanged[of 0 "[weather]" play] by simp

text \<open>
  Claim C10. On a table without a column named \<^verbatim>\<open>index\<close> the entry point raises.
\<close>

theorem missing_index_raises:
  "''index'' \<notin> set (columns (h ! df)) \<Longrightarrow> \<exists>err. fst (max_info_gain_feature h df y) = Inl err"
  by (rule no_index_fails)

theorem missing_index_raises_witness:
  "''index'' \<notin> set (columns ([no_index] ! 0)) \<and>
   (\<exists>err. fst (max_info_gain_feature [no_index] 0 play1) = Inl err)"
proof -
  have a: "''index'' \<notin> set (columns ([no_index] ! 0))"
    by (simp add: no_index_def columns_def)
  show ?thesis using missing_index_raises[OF a] a by simp
qed

text \<open>
  Claim C5. When the label's name is the name of a column of the table, the entry point
  raises (the \<^verbatim>\<open>ValueError\<close> of \<^verbatim>\<open>DataFrame.insert\<close>) and no table of the store is changed.
\<close>

theorem label_collision_raises:
  "name y \<in> set (columns (h ! df)) \<Longrightarrow>
   fst (max_info_gain_feature h df y) =
     Inl (ValueError (''cannot insert '' @ name y @ '', already exists'')) \<and>
   take (length h) (snd (max_info_gain_feature h df y)) = h"
  by (simp add: mig_result store_prefix_kept)

theorem label_collision_raises_witness:
  "name sky \<in> set (columns ([weather] ! 0)) \<and>
   fst (max_info_gain_feature [weather] 0 sky) =
     Inl (ValueError ''cannot insert Sky, already exists'') \<and>
   take (length [weather]) (snd (max_info_gain_feature [weather] 0 sky)) = [weather]"
proof -
  have a: "name sky \<in> set (columns ([weather] ! 0))"
    by (simp add: sky_def weather_def columns_def)
  show ?thesis using label_collision_raises[OF a] a by (simp add: sky_def)
qed

text \<open>
  Claim C8. The entropy of a single positive count is exactly 0, and so is the entropy
  \<^verbatim>\<open>_e\<close> of a table whose label column holds one distinct value.
\<close>

theorem single_label_entropy_zero:
  "(0 < n \<longrightarrow> feature_value_entropy [n] = Inr (Fin 0)) \<and>
   (get_column t label = Inr l \<and> set l = {v} \<longrightarrow> e t label = Inr (Fin 0))"
proof (intro conjI impI)
  assume "0 < n"
  then show "feature_value_entropy [n] = Inr (Fin 0)" by (rule single_count_entropy)
next
  assume a: "get_column t label = Inr l \<and> set l = {v}"
  then have r: "remdups l = [v]" by (simp add: singleton_remdups)
  from a have f: "filter (\<lambda>x. x = v) l = l" by (auto simp: filter_id_conv)
  from a have "l \<noteq> []" by auto
  then have pos: "0 < int (length l)" by simp
  have "e t label = feature_value_entropy [int (length l)]"
    using a by (simp add: e_def groupby_Inr r nrows_loc_eq f)
  with pos show "e t label = Inr (Fin 0)" by (simp add: single_count_entropy)
qed

theorem single_label_entropy_zero_witness:
  "0 < (3::int) \<and> feature_value_entropy [3] = Inr (Fin 0) \<and>
   get_column (loc weather [True, True, False, False]) ''Sky'' = Inr [StrV ''sunny'', StrV ''sunny''] \<and>
   set [StrV ''sunny'', StrV ''sunny''] = {StrV ''sunny''} \<and>
   e (loc weather [True, True, False, False]) ''Sky'' = Inr (Fin 0)"
proof -
  have g: "get_column (loc weather [True, True, False, False]) ''Sky'' = Inr [StrV ''sunny'', StrV ''sunny'']"
    by (simp add: get_column_def loc_def weather_def select_def)
  have s: "set [StrV ''sunny'', StrV ''sunny''] = {StrV ''sunny''}" by simp
  show ?thesis
    using single_label_entropy_zero[of 3 "loc weather [True, True, False, False]" "''Sky''"
        "[StrV ''sunny'', StrV ''sunny'']" "StrV ''sunny''"] g s
    by simp
qed







text \<open>
  Claim C2. On a feature coded by integers the code weighs every group by
  \<^verbatim>\<open>p(df, feature, str(n))\<close>, the share of cells equal to a string, which is 0: the
  conditional entropy comes out as 0, where the sum of the claim is 1. (On a column of
  strings the two agree: \<open>feature_entropy_string_column\<close>.)
\<close>

theorem integer_feature_entropy_zero:
  "feature_entropy coded ''F'' ''Play'' = Inr (Fin 0) \<and>
   feature_entropy_spec coded ''F'' ''Play'' = Inr (Fin 1)"
  by (simp add: eval_defs feature_entropy_spec_def coded_def log2_half)

text \<open>
  Claim C4 says a table with zero rows is rejected. It is not: every entropy is the empty
  sum 0 and the first feature column is returned.
\<close>

theorem zero_rows_not_rejected: "fst (max_info_gain_feature [zero_rows] 0 no_labels) = Inr ''Wind''"
  by (simp add: eval_defs zero_rows_def no_labels_def)

text \<open>
  Claim C4, amended. When the table has no column besides the label's and \<^verbatim>\<open>index\<close>,
  the entry point raises, on every table and label.
\<close>

theorem no_feature_column_fails:
  assumes nofeat: "filter (\<lambda>f. f \<noteq> ''index'' \<and> f \<noteq> name y) (columns (h ! df)) = []"
  shows "\<exists>err. fst (max_info_gain_feature h df y) = Inl err"
proof (cases "name y \<in> set (columns (h ! df)) \<or> ''index'' \<notin> set (name y # columns (h ! df))")
  case True
  then show ?thesis by (auto simp: mig_result)
next
  case False
  let ?wc = "working_copy (h ! df) y"
  have sub: "set (columns ?wc) \<subseteq> {name y}"
  proof
    fix g assume "g \<in> set (columns ?wc)"
    then have g: "g \<noteq> ''index''" "g = name y \<or> g \<in> set (columns (h ! df))"
      by (auto simp: working_copy_def columns_def split: if_splits)
    show "g \<in> {name y}"
    proof (rule ccontr)
      assume "g \<notin> {name y}"
      with g have "g \<in> set (filter (\<lambda>f. f \<noteq> ''index'' \<and> f \<noteq> name y) (columns (h ! df)))"
        by auto
      with nofeat show False by simp
    qed
  qed
  show ?thesis
  proof (cases "entropy_dict ?wc (name y)")
    case (Inl err)
    with False show ?thesis by (simp add: mig_result)
  next
    case (Inr d)
    then have keys: "fst ` set d = set (columns ?wc)" by (rule entropy_dict_keys)
    have k2: "fst ` set (dict_of_items (py_sorted d)) \<subseteq> {name y}"
      using keys sub by (simp add: keys_dict_of_items set_py_sorted)
    show ?thesis
    proof (cases "dict_del (dict_of_items (py_sorted d)) (name y)")
      case (Inl err)
      with False Inr show ?thesis by (simp add: mig_result)
    next
      case ev: (Inr ev)
      then have "ev = filter (\<lambda>kv. fst kv \<noteq> name y) (dict_of_items (py_sorted d))"
        by (auto simp: dict_del_def split: if_splits)
      also have "\<dots> = []" using k2 by (auto simp: filter_empty_conv)
      finally have "py_min ev = Inl (ValueError ''min() arg is an empty sequence'')"
        by (simp add: py_min_def)
      with False Inr ev show ?thesis by (simp add: mig_result)
    qed
  qed
qed

theorem no_feature_column_fails_witness:
  "filter (\<lambda>f. f \<noteq> ''index'' \<and> f \<noteq> name play) (columns ([only_index] ! 0)) = [] \<and>
   (\<exists>err. fst (max_info_gain_feature [only_index] 0 play) = Inl err)"
proof -
  have a: "filter (\<lambda>f. f \<noteq> ''index'' \<and> f \<noteq> name play) (columns ([only_index] ! 0)) = []"
    by (simp add: only_index_def columns_def)
  show ?thesis using no_feature_column_fails[OF a] a by blast
qed

text \<open>
  Claim C6 compares the result with the one computed on the table without its
  \<^verbatim>\<open>index\<close> column. On that table the entry point raises, while on the table with the
  column it returns a feature.
\<close>

theorem index_removed_changes_result:
  "fst (max_info_gain_feature [weather] 0 play) = Inr ''Sky'' \<and>
   fst (max_info_gain_feature [weather\<lparr>cols := filter (\<lambda>c. fst c \<noteq> ''index'') (cols weather)\<rparr>] 0 play)
     = Inl (KeyError ''index'')"
  by (simp add: eval_defs weather_def play_def)

text \<open>
  Claim C6, amended. Two tables that both have a column named \<^verbatim>\<open>index\<close>, have the
  same number of rows and the same other columns in the same order give the same result,
  whatever their \<^verbatim>\<open>index\<close> columns hold and wherever they stand; and the result is never
  the name \<^verbatim>\<open>index\<close>.
\<close>

theorem index_column_ignored:
  assumes i1: "''index'' \<in> set (columns (h ! df))" and i2: "''index'' \<in> set (columns (h' ! df'))"
    and n: "nrows (h ! df) = nrows (h' ! df')"
    and c: "filter (\<lambda>c. fst c \<noteq> ''index'') (cols (h ! df)) =
            filter (\<lambda>c. fst c \<noteq> ''index'') (cols (h' ! df'))"
  shows "fst (max_info_gain_feature h df y) = fst (max_info_gain_feature h' df' y) \<and>
         fst (max_info_gain_feature h df y) \<noteq> Inr ''index''"
proof
  have "set (filter (\<lambda>f. f \<noteq> ''index'') (columns (h ! df))) =
        set (filter (\<lambda>f. f \<noteq> ''index'') (columns (h' ! df')))"
    using arg_cong[OF c, of "\<lambda>cs. set (map fst cs)"] by (simp add: columns_def filter_map comp_def)
  then have names: "name y \<in> set (columns (h ! df)) \<longleftrightarrow> name y \<in> set (columns (h' ! df'))"
    using i1 i2 by (cases "name y = ''index''") auto
  have wc: "working_copy (h ! df) y = working_copy (h' ! df') y"
    using n c by (simp add: working_copy_def)
  show "fst (max_info_gain_feature h df y) = fst (max_info_gain_feature h' df' y)"
    using i1 i2 names by (simp add: mig_result wc)
  show "fst (max_info_gain_feature h df y) \<noteq> Inr ''index''"
  proof
    assume "fst (max_info_gain_feature h df y) = Inr ''index''"
    then have "''index'' \<in> set (columns (working_copy (h ! df) y))" by (rule result_is_column)
    then show False by (auto simp: working_copy_def columns_def split: if_splits)
  qed
qed

theorem index_column_ignored_witness:
  "''index'' \<in> set (columns ([weather] ! 0)) \<and> ''index'' \<in> set (columns ([weather_moved] ! 0)) \<and>
   nrows ([weather] ! 0) = nrows ([weather_moved] ! 0) \<and>
   filter (\<lambda>c. fst c \<noteq> ''index'') (cols ([weather] ! 0)) =
     filter (\<lambda>c. fst c \<noteq> ''index'') (cols ([weather_moved] ! 0)) \<and>
   fst (max_info_gain_feature [weather] 0 play) = fst (max_info_gain_feature [weather_moved] 0 play) \<and>
   fst (max_info_gain_feature [weather] 0 play) \<noteq> Inr ''index''"
proof -
  have a: "''index'' \<in> set (columns ([weather] ! 0))" by (simp add: weather_def columns_def)
  have b: "''index'' \<in> set (columns ([weather_moved] ! 0))" by (simp add: weather_moved_def columns_def)
  have c: "nrows ([weather] ! 0) = nrows ([weather_moved] ! 0)"
    by (simp add: weather_def weather_moved_def)
  have d: "filter (\<lambda>c. fst c \<noteq> ''index'') (cols ([weather] ! 0)) =
     filter (\<lambda>c. fst c \<noteq> ''index'') (cols ([weather_moved] ! 0))"
    by (simp add: weather_def weather_moved_def)
  show ?thesis using index_column_ignored[OF a b c d, of play] a b c d by blast
qed

end
